theory Spec2Isabelle
  imports Complex_Main
begin

section \<open>The MCP HTTP adapter of rei360: registry, auth gate, rate bucket, execute\<close>

text \<open>
  The development embeds the adapter variant of
  \<^verbatim>\<open>packages/mcp-core/mcp_http_adapter.py\<close> that carries the in-memory bucket for
  critical operations (\<^verbatim>\<open>_Bucket\<close>, \<^verbatim>\<open>_build_registry\<close>, \<^verbatim>\<open>_validate_key\<close>,
  \<^verbatim>\<open>execute\<close>). Python values of type \<^verbatim>\<open>Any\<close> are JSON values, dictionaries whose
  order is observable are association lists, the registry is a map, a Python float is the
  binary64 value it holds with every operation rounded, and every effect of \<^verbatim>\<open>execute\<close>
  (the bucket, the writes to the durable store, the calls of the provider) is a field of
  an explicit state that the function returns updated.
\<close>

subsection \<open>Python values\<close>

datatype json =
    JNull
  | JBool bool
  | JInt int
  | JFloat rat
  | JStr string
  | JList "json list"
  | JObj "(string \<times> json) list"

datatype py_error = ZeroDivisionError

text \<open>Python's \<^verbatim>\<open>bool(v)\<close>.\<close>

fun py_bool :: "json \<Rightarrow> bool" where
  "py_bool JNull = False"
| "py_bool (JBool b) = b"
| "py_bool (JInt i) = (i \<noteq> 0)"
| "py_bool (JFloat x) = (x \<noteq> 0)"
| "py_bool (JStr s) = (s \<noteq> [])"
| "py_bool (JList xs) = (xs \<noteq> [])"
| "py_bool (JObj kvs) = (kvs \<noteq> [])"

text \<open>\<^verbatim>\<open>d.get(k, default)\<close> and \<^verbatim>\<open>list(d.keys())\<close> on a dictionary kept as an association list.\<close>

definition dict_get :: "(string \<times> json) list \<Rightarrow> string \<Rightarrow> json \<Rightarrow> json" where
  "dict_get d k dflt = (case map_of d k of None \<Rightarrow> dflt | Some v \<Rightarrow> v)"

definition dict_keys :: "(string \<times> json) list \<Rightarrow> string list" where
  "dict_keys d = map fst d"

subsection \<open>Python numbers\<close>

text \<open>
  A Python \<^verbatim>\<open>float\<close> is an IEEE binary64 value, kept here as the rational number it
  denotes. Each arithmetic operation of the source is the exact operation followed by
  rounding to the nearest binary64 value, ties to even (\<open>fl\<close>); the same holds for the
  true division of two integers and for the conversion of an integer. Only the normal range
  is modelled: overflow, subnormal results, infinities and NaN do not occur for the clock
  readings and token counts of the adapter.
\<close>

fun bitlen :: "nat \<Rightarrow> nat" where
  "bitlen n = (if n = 0 then 0 else Suc (bitlen (n div 2)))"

declare bitlen.simps [simp del]

definition pow2 :: "int \<Rightarrow> rat" where
  "pow2 e = (if 0 \<le> e then 2 ^ nat e else 1 / 2 ^ nat (- e))"

text \<open>The exponent of a positive number: the \<open>e\<close> with \<open>2^e \<le> a < 2^(e+1)\<close>.\<close>

definition ilog2 :: "rat \<Rightarrow> int" where
  "ilog2 a =
     (if 1 \<le> a then int (bitlen (nat \<lfloor>a\<rfloor>)) - 1
      else - int (bitlen (nat (\<lceil>1 / a\<rceil> - 1))))"

definition round_half_even :: "rat \<Rightarrow> int" where
  "round_half_even m =
     (let f = \<lfloor>m\<rfloor>; r = m - of_int f
      in if r < 1 / 2 then f else if 1 / 2 < r then f + 1 else if even f then f else f + 1)"

text \<open>Rounding to 53 significant bits.\<close>

definition fl :: "rat \<Rightarrow> rat" where
  "fl q =
     (if q = 0 then 0
      else let a = \<bar>q\<bar>; e = ilog2 a; ulp = pow2 (e - 52)
           in sgn q * of_int (round_half_even (a / ulp)) * ulp)"

text \<open>
  A number held by a Python variable is an \<^verbatim>\<open>int\<close> (exact, unbounded) or a \<^verbatim>\<open>float\<close>.
  \<open>pyval\<close> is the value that comparisons see (Python compares an int with a float
  exactly); \<open>to_float\<close> is the conversion that mixed arithmetic applies to an int.
\<close>

datatype pynum = PyInt int | PyFloat rat

fun pyval :: "pynum \<Rightarrow> rat" where
  "pyval (PyInt i) = of_int i"
| "pyval (PyFloat x) = x"

fun to_float :: "pynum \<Rightarrow> rat" where
  "to_float (PyInt i) = fl (of_int i)"
| "to_float (PyFloat x) = x"

text \<open>\<^verbatim>\<open>n - amt\<close> for an int \<^verbatim>\<open>amt\<close>: exact on an int, a float subtraction on a float.\<close>

fun py_sub_int :: "pynum \<Rightarrow> int \<Rightarrow> pynum" where
  "py_sub_int (PyInt i) amt = PyInt (i - amt)"
| "py_sub_int (PyFloat x) amt = PyFloat (fl (x - fl (of_int amt)))"

text \<open>\<^verbatim>\<open>min(m, x)\<close> for an int \<^verbatim>\<open>m\<close> and a float \<^verbatim>\<open>x\<close>: the float only when it is smaller.\<close>

definition py_min_int_float :: "int \<Rightarrow> rat \<Rightarrow> pynum" where
  "py_min_int_float m x = (if x < of_int m then PyFloat x else PyInt m)"

subsection \<open>The in-memory bucket for critical operations\<close>

record Bucket =
  max_tokens :: int
  refill_seconds :: int
  tokens :: pynum
  last :: rat

text \<open>\<^verbatim>\<open>_Bucket.__init__\<close>; the third argument is the reading of \<^verbatim>\<open>time()\<close>.\<close>

definition Bucket_init :: "int \<Rightarrow> int \<Rightarrow> rat \<Rightarrow> Bucket" where
  "Bucket_init mt rs now = \<lparr>max_tokens = mt, refill_seconds = rs, tokens = PyInt mt, last = now\<rparr>"

text \<open>
  \<^verbatim>\<open>_Bucket.can_consume\<close>: \<open>now\<close> is the reading of \<^verbatim>\<open>time()\<close>, a float. The division
  \<^verbatim>\<open>self.max_tokens / self.refill_seconds\<close> raises when the window is zero; it is only
  evaluated when time has passed. The subtraction, the division, the product and the sum
  are float operations; \<^verbatim>\<open>min\<close> gives back the int \<^verbatim>\<open>max_tokens\<close> when the bucket is
  full; the decrement is exact while the count is an int.
\<close>

definition can_consume :: "rat \<Rightarrow> int \<Rightarrow> Bucket \<Rightarrow> py_error + (bool \<times> Bucket)" where
  "can_consume now amt b =
     (let elapsed = fl (now - last b) in
      if elapsed > 0 \<and> refill_seconds b = 0 then Inl ZeroDivisionError
      else
        let b1 = (if elapsed > 0
                  then let rate = fl (of_int (max_tokens b) / of_int (refill_seconds b))
                       in b\<lparr>tokens := py_min_int_float (max_tokens b)
                                          (fl (to_float (tokens b) + fl (elapsed * rate))),
                            last := now\<rparr>
                  else b)
        in if pyval (tokens b1) \<ge> of_int amt
           then Inr (True, b1\<lparr>tokens := py_sub_int (tokens b1) amt\<rparr>)
           else Inr (False, b1))"

text \<open>\<^verbatim>\<open>_critical_bucket = _Bucket(5, 3600)\<close>, built when the clock reads \<open>now\<close>.\<close>

definition critical_bucket_init :: "rat \<Rightarrow> Bucket" where
  "critical_bucket_init now = Bucket_init 5 3600 now"


subsection \<open>The registry\<close>

record param =
  param_name :: string
  param_type :: json
  param_description :: json
  param_required :: bool

text \<open>A tool's \<^verbatim>\<open>inputSchema\<close>: the keys \<^verbatim>\<open>properties\<close> and \<^verbatim>\<open>required\<close>, each possibly absent.\<close>

record schema =
  properties :: "(string \<times> (string \<times> json) list) list option"
  required :: "string list option"

text \<open>
  One element of the list that \<^verbatim>\<open>_load_tools_from_main\<close> returns. The governance
  classification comes from \<^verbatim>\<open>main_extended.check_governance\<close>, which is outside the
  adapter: it is \<^verbatim>\<open>None\<close> or a dictionary.
\<close>

record descriptor =
  d_name :: string
  d_description :: json
  inputSchema :: "schema option"
  governance :: "(string \<times> json) list option"

record tool =
  name :: string
  description :: json
  parameters :: "param list"
  rate_limit_level :: json
  approval_required :: bool

text \<open>
  \<^verbatim>\<open>_load_tools_from_main\<close>: the import of \<^verbatim>\<open>main_extended\<close> either yields the
  descriptors or raises, and then the list is empty.
\<close>

definition load_tools_from_main :: "descriptor list option \<Rightarrow> descriptor list" where
  "load_tools_from_main main_tools = (case main_tools of None \<Rightarrow> [] | Some ts \<Rightarrow> ts)"

text \<open>The inner loop of \<^verbatim>\<open>_build_registry\<close> over \<^verbatim>\<open>schema["properties"].items()\<close>.\<close>

definition registry_params :: "schema \<Rightarrow> param list" where
  "registry_params sch =
     map (\<lambda>(k, v).
            \<lparr>param_name = k,
             param_type = dict_get v ''type'' (JStr ''string''),
             param_description = dict_get v ''description'' (JStr []),
             param_required = (k \<in> set (case required sch of None \<Rightarrow> [] | Some r \<Rightarrow> r))\<rparr>)
         (case properties sch of None \<Rightarrow> [] | Some props \<Rightarrow> props)"

text \<open>\<^verbatim>\<open>t.get("governance") or {"level": "MEDIUM", "allowed": True}\<close>: an empty dictionary is falsy.\<close>

definition governance_or_default :: "(string \<times> json) list option \<Rightarrow> (string \<times> json) list" where
  "governance_or_default g =
     (case g of
        None \<Rightarrow> [(''level'', JStr ''MEDIUM''), (''allowed'', JBool True)]
      | Some gov \<Rightarrow> if gov = [] then [(''level'', JStr ''MEDIUM''), (''allowed'', JBool True)] else gov)"

text \<open>The body of the outer loop of \<^verbatim>\<open>_build_registry\<close>: the entry stored under the tool's name.\<close>

definition registry_entry :: "descriptor \<Rightarrow> tool" where
  "registry_entry t =
     (let params = (case inputSchema t of None \<Rightarrow> [] | Some sch \<Rightarrow> registry_params sch);
          gov = governance_or_default (governance t)
      in \<lparr>name = d_name t,
          description = d_description t,
          parameters = params,
          rate_limit_level = dict_get gov ''level'' (JStr ''MEDIUM''),
          approval_required = (dict_get gov ''level'' JNull = JStr ''CRITICAL'')\<rparr>)"

fun registry_loop :: "descriptor list \<Rightarrow> (string \<rightharpoonup> tool) \<Rightarrow> (string \<rightharpoonup> tool)" where
  "registry_loop [] reg = reg"
| "registry_loop (t # ts) reg = registry_loop ts (reg(d_name t \<mapsto> registry_entry t))"

definition build_registry :: "descriptor list option \<Rightarrow> (string \<rightharpoonup> tool)" where
  "build_registry main_tools = registry_loop (load_tools_from_main main_tools) Map.empty"

subsection \<open>Requests, responses and the world around \<^verbatim>\<open>execute\<close>\<close>

record config =
  SAFE_MODE :: bool
  MCP_API_KEY :: string

record ExecuteRequest =
  tool_name :: string
  arguments :: "(string \<times> json) list"
  dry_run :: bool
  request_id :: "string option"

text \<open>
  The JSON body of \<^verbatim>\<open>POST /mcp/execute\<close>: the fields that \<^verbatim>\<open>ExecuteRequest\<close> declares,
  the optional ones possibly absent, and whatever other keys the caller sent. The model
  class is built from the declared fields with their defaults; it declares no other
  field, so the other keys never reach \<^verbatim>\<open>execute\<close>.
\<close>

record request_body =
  body_tool_name :: string
  body_arguments :: "(string \<times> json) list option"
  body_dry_run :: "bool option"
  body_request_id :: "string option"
  body_extra :: "(string \<times> json) list"

definition ExecuteRequest_of_body :: "request_body \<Rightarrow> ExecuteRequest" where
  "ExecuteRequest_of_body b =
     \<lparr>tool_name = body_tool_name b,
      arguments = (case body_arguments b of None \<Rightarrow> [] | Some a \<Rightarrow> a),
      dry_run = (case body_dry_run b of None \<Rightarrow> False | Some d \<Rightarrow> d),
      request_id = body_request_id b\<rparr>"

text \<open>The record handed to \<^verbatim>\<open>write_local_memory\<close> for a pending approval.\<close>

record approval_mem =
  mem_type :: string
  mem_tool_name :: string
  mem_arguments :: "(string \<times> json) list"
  requires_approval :: bool
  approval_status :: string
  requested_by :: string

text \<open>
  \<^verbatim>\<open>from memory.helpers import write_local_memory\<close>: the import fails, or it gives a
  function that returns a record identifier or raises (\<open>Inl\<close> carries the message).
\<close>

datatype memory_helpers =
    MemoryUnavailable
  | MemoryHelpers "approval_mem \<Rightarrow> string + json"

text \<open>
  What the provider's \<^verbatim>\<open>call_tool\<close> returns: a list of items, where an item is an object
  with a \<^verbatim>\<open>text\<close> attribute or a plain JSON value, or a value that is not a list.
\<close>

datatype item = TextContent string | PlainItem json

datatype tool_result = ResultList "item list" | ResultValue json

text \<open>
  \<^verbatim>\<open>from main_extended import server as mcp_server\<close>: the import raises (with a message),
  the server has no \<^verbatim>\<open>call_tool\<close>, or \<^verbatim>\<open>call_tool\<close> returns a result or raises.
\<close>

datatype mcp_server =
    ServerUnavailable string
  | ServerWithoutCallTool
  | Server "string \<Rightarrow> (string \<times> json) list \<Rightarrow> string + tool_result"

text \<open>
  Everything \<^verbatim>\<open>execute\<close> reads from outside the request: the configuration, the
  registry, the clock readings (\<^verbatim>\<open>time()\<close> inside the bucket, a float;
  \<^verbatim>\<open>datetime.utcnow()\<close> at the start and after the call, in whole microseconds, the
  resolution of a \<^verbatim>\<open>datetime\<close>), the digest that names a request without an
  id, the two imported collaborators, \<^verbatim>\<open>json.loads\<close> (\<open>None\<close> when it raises) and the
  message of the encoder's \<^verbatim>\<open>TypeError\<close>.
\<close>

record world =
  cfg :: config
  REGISTRY :: "string \<rightharpoonup> tool"
  time_now :: rat
  utcnow_start :: int
  utcnow_end :: int
  sha256_hex16 :: "string \<Rightarrow> int \<Rightarrow> string"
  memory :: memory_helpers
  main_extended :: mcp_server
  json_loads :: "string \<Rightarrow> json option"
  encoder_error :: string

datatype result_body =
    ApprovalResult bool json
  | DryRunResult bool "string list"
  | Payload json

record content =
  success :: bool
  resp_request_id :: string
  resp_tool_name :: string
  result :: "result_body option"
  error :: "string option"
  execution_time_ms :: pynum
  governance_level :: json

datatype response =
    HTTPException nat string
  | JSONResponse nat content
  | Unhandled py_error

text \<open>
  The process state that \<^verbatim>\<open>execute\<close> touches: the module's \<^verbatim>\<open>_critical_bucket\<close>, the
  records handed to the durable store so far, and the calls of \<^verbatim>\<open>call_tool\<close> so far.
\<close>

record gateway_state =
  critical_bucket :: Bucket
  memory_writes :: "approval_mem list"
  tool_calls :: "(string \<times> (string \<times> json) list) list"

subsection \<open>The auth gate and \<^verbatim>\<open>execute\<close>\<close>

definition validate_key :: "config \<Rightarrow> string option \<Rightarrow> bool \<Rightarrow> bool" where
  "validate_key c x_mcp_key read_only =
     (if SAFE_MODE c then x_mcp_key = Some (MCP_API_KEY c) \<or> read_only else True)"

text \<open>\<^verbatim>\<open>bool(x_mcp_readonly)\<close> on the optional header.\<close>

definition header_bool :: "bool option \<Rightarrow> bool" where
  "header_bool h = (case h of None \<Rightarrow> False | Some b \<Rightarrow> b)"

text \<open>\<^verbatim>\<open>rid = req.request_id or sha256(...).hexdigest()[:16]\<close>: an empty id is falsy.\<close>

definition request_rid :: "world \<Rightarrow> ExecuteRequest \<Rightarrow> string" where
  "request_rid w req =
     (case request_id req of
        None \<Rightarrow> sha256_hex16 w (tool_name req) (utcnow_start w)
      | Some r \<Rightarrow> if r = [] then sha256_hex16 w (tool_name req) (utcnow_start w) else r)"

text \<open>\<^verbatim>\<open>bool(req.arguments.get("_approved", False))\<close>.\<close>

definition already_approved :: "ExecuteRequest \<Rightarrow> bool" where
  "already_approved req = py_bool (dict_get (arguments req) ''_approved'' (JBool False))"

text \<open>The payload of a synchronous result: the first item's text parsed when there is one.\<close>

definition payload_of :: "(string \<Rightarrow> json option) \<Rightarrow> tool_result \<Rightarrow> json + tool_result" where
  "payload_of loads r =
     (case r of
        ResultList (TextContent txt # rest) \<Rightarrow>
          (case loads txt of None \<Rightarrow> Inr r | Some j \<Rightarrow> Inl j)
      | _ \<Rightarrow> Inr r)"

text \<open>
  What the JSON encoder of \<^verbatim>\<open>JSONResponse\<close> makes of a raw provider result: an object
  with a \<^verbatim>\<open>text\<close> attribute is not serialisable, and the encoder raises.
\<close>

fun plain_items :: "item list \<Rightarrow> json list option" where
  "plain_items [] = Some []"
| "plain_items (TextContent txt # xs) = None"
| "plain_items (PlainItem j # xs) = (case plain_items xs of None \<Rightarrow> None | Some js \<Rightarrow> Some (j # js))"

definition render :: "json + tool_result \<Rightarrow> json option" where
  "render p =
     (case p of
        Inl j \<Rightarrow> Some j
      | Inr (ResultValue j) \<Rightarrow> Some j
      | Inr (ResultList xs) \<Rightarrow> (case plain_items xs of None \<Rightarrow> None | Some js \<Rightarrow> Some (JList js)))"

definition error_content :: "string \<Rightarrow> ExecuteRequest \<Rightarrow> tool \<Rightarrow> string \<Rightarrow> content" where
  "error_content rid req t msg =
     \<lparr>success = False, resp_request_id = rid, resp_tool_name = tool_name req,
      result = None, error = Some msg, execution_time_ms = PyInt 0,
      governance_level = rate_limit_level t\<rparr>"

definition pending_content :: "string \<Rightarrow> ExecuteRequest \<Rightarrow> tool \<Rightarrow> json \<Rightarrow> content" where
  "pending_content rid req t mem_id =
     \<lparr>success = False, resp_request_id = rid, resp_tool_name = tool_name req,
      result = Some (ApprovalResult True mem_id), error = Some ''approval_required'',
      execution_time_ms = PyInt 0, governance_level = rate_limit_level t\<rparr>"

definition dry_run_content :: "string \<Rightarrow> ExecuteRequest \<Rightarrow> tool \<Rightarrow> content" where
  "dry_run_content rid req t =
     \<lparr>success = True, resp_request_id = rid, resp_tool_name = tool_name req,
      result = Some (DryRunResult True (dict_keys (arguments req))), error = None,
      execution_time_ms = PyInt 0, governance_level = rate_limit_level t\<rparr>"

text \<open>
  \<^verbatim>\<open>(datetime.utcnow() - start).total_seconds() * 1000\<close>: the microseconds of the
  difference divided by \<^verbatim>\<open>10**6\<close> as a float, then a float product.
\<close>

definition elapsed_ms :: "world \<Rightarrow> rat" where
  "elapsed_ms w = fl (fl (of_int (utcnow_end w - utcnow_start w) / 1000000) * 1000)"

definition success_content :: "world \<Rightarrow> string \<Rightarrow> ExecuteRequest \<Rightarrow> tool \<Rightarrow> json \<Rightarrow> content" where
  "success_content w rid req t payload =
     \<lparr>success = True, resp_request_id = rid, resp_tool_name = tool_name req,
      result = Some (Payload payload), error = None,
      execution_time_ms = PyFloat (elapsed_ms w),
      governance_level = rate_limit_level t\<rparr>"

definition approval_record :: "ExecuteRequest \<Rightarrow> string option \<Rightarrow> approval_mem" where
  "approval_record req x_mcp_key =
     \<lparr>mem_type = ''tool_request'', mem_tool_name = tool_name req,
      mem_arguments = arguments req, requires_approval = True,
      approval_status = ''pending'',
      requested_by = (case x_mcp_key of
                        None \<Rightarrow> ''anonymous''
                      | Some k \<Rightarrow> if k = [] then ''anonymous'' else k)\<rparr>"

text \<open>
  The bucket step of \<^verbatim>\<open>execute\<close>: only a tool whose level is the string
  \<^verbatim>\<open>CRITICAL\<close> touches \<^verbatim>\<open>_critical_bucket\<close>; every other tool goes on with the bucket
  as it is.
\<close>

definition critical_gate :: "world \<Rightarrow> tool \<Rightarrow> gateway_state \<Rightarrow> py_error + (bool \<times> Bucket)" where
  "critical_gate w t s =
     (if rate_limit_level t = JStr ''CRITICAL''
      then can_consume (time_now w) 1 (critical_bucket s)
      else Inr (True, critical_bucket s))"

text \<open>
  \<^verbatim>\<open>execute\<close>, in the order of the source: registry lookup, auth gate, the bucket for
  CRITICAL tools, the approval step, dry run, and the awaited call of the provider inside
  the \<^verbatim>\<open>try\<close> whose handler builds the error envelope.
\<close>

definition execute ::
  "world \<Rightarrow> ExecuteRequest \<Rightarrow> string option \<Rightarrow> bool option \<Rightarrow> gateway_state
     \<Rightarrow> response \<times> gateway_state" where
  "execute w req x_mcp_key x_mcp_readonly s =
     (let rid = request_rid w req in
      case REGISTRY w (tool_name req) of
        None \<Rightarrow> (HTTPException 400 ''Unknown tool'', s)
      | Some t \<Rightarrow>
          if \<not> validate_key (cfg w) x_mcp_key (header_bool x_mcp_readonly)
          then (HTTPException 401 ''Unauthorized: X-MCP-KEY invalid or missing'', s)
          else
            (case critical_gate w t s of
               Inl e \<Rightarrow> (Unhandled e, s)
             | Inr (False, b) \<Rightarrow>
                 (HTTPException 429 ''Critical operation rate limit exceeded'',
                  s\<lparr>critical_bucket := b\<rparr>)
             | Inr (True, b) \<Rightarrow>
                 (let s1 = s\<lparr>critical_bucket := b\<rparr> in
                  if approval_required t \<and> \<not> already_approved req
                  then
                    (case memory w of
                       MemoryUnavailable \<Rightarrow>
                         (JSONResponse 200 (pending_content rid req t JNull), s1)
                     | MemoryHelpers write_local_memory \<Rightarrow>
                         (let mem = approval_record req x_mcp_key;
                              s2 = s1\<lparr>memory_writes := memory_writes s1 @ [mem]\<rparr>;
                              mem_id = (case write_local_memory mem of
                                          Inl e \<Rightarrow> JNull
                                        | Inr i \<Rightarrow> i)
                          in (JSONResponse 200 (pending_content rid req t mem_id), s2)))
                  else if dry_run req
                  then (JSONResponse 200 (dry_run_content rid req t), s1)
                  else
                    (case main_extended w of
                       ServerUnavailable msg \<Rightarrow>
                         (JSONResponse 500 (error_content rid req t msg), s1)
                     | ServerWithoutCallTool \<Rightarrow>
                         (JSONResponse 500
                            (error_content rid req t ''MCP server missing call_tool''), s1)
                     | Server call_tool \<Rightarrow>
                         (let s2 = s1\<lparr>tool_calls :=
                                         tool_calls s1 @ [(tool_name req, arguments req)]\<rparr>
                          in case call_tool (tool_name req) (arguments req) of
                               Inl msg \<Rightarrow> (JSONResponse 500 (error_content rid req t msg), s2)
                             | Inr r \<Rightarrow>
                                 (case render (payload_of (json_loads w) r) of
                                    None \<Rightarrow>
                                      (JSONResponse 500
                                         (error_content rid req t (encoder_error w)), s2)
                                  | Some payload \<Rightarrow>
                                      (JSONResponse 200
                                         (success_content w rid req t payload), s2)))))))"

text \<open>\<^verbatim>\<open>POST /mcp/execute\<close> from the JSON body on.\<close>

definition execute_body ::
  "world \<Rightarrow> request_body \<Rightarrow> string option \<Rightarrow> bool option \<Rightarrow> gateway_state
     \<Rightarrow> response \<times> gateway_state" where
  "execute_body w b x_mcp_key x_mcp_readonly s =
     execute w (ExecuteRequest_of_body b) x_mcp_key x_mcp_readonly s"

subsection \<open>Outcomes of a request\<close>

text \<open>
  The kind of answer a caller sees, read off the response: the three rejections by their
  status code, the envelopes by what their \<^verbatim>\<open>result\<close> carries (an envelope without a
  result is the error envelope of the \<^verbatim>\<open>except\<close> branch), and an exception that leaves
  \<^verbatim>\<open>execute\<close> unhandled.
\<close>

datatype outcome =
    UnknownTool
  | Unauthorized
  | RateLimited
  | ApprovalPending
  | DryRun
  | Synchronous
  | ExecutionError
  | Fault

fun outcome_of :: "response \<Rightarrow> outcome" where
  "outcome_of (HTTPException code detail) =
     (if code = 400 then UnknownTool else if code = 401 then Unauthorized else RateLimited)"
| "outcome_of (JSONResponse code c) =
     (case result c of
        None \<Rightarrow> ExecutionError
      | Some (ApprovalResult a m) \<Rightarrow> ApprovalPending
      | Some (DryRunResult d ks) \<Rightarrow> DryRun
      | Some (Payload p) \<Rightarrow> Synchronous)"
| "outcome_of (Unhandled e) = Fault"

text \<open>
  The outcome of the last step of \<^verbatim>\<open>execute\<close>, the awaited call: a synchronous
  result when the provider returns and the envelope can be encoded, the error envelope
  otherwise.
\<close>

definition dispatch_outcome :: "world \<Rightarrow> ExecuteRequest \<Rightarrow> outcome" where
  "dispatch_outcome w req =
     (case main_extended w of
        Server call_tool \<Rightarrow>
          (case call_tool (tool_name req) (arguments req) of
             Inl msg \<Rightarrow> ExecutionError
           | Inr r \<Rightarrow>
               (case render (payload_of (json_loads w) r) of
                  None \<Rightarrow> ExecutionError
                | Some p \<Rightarrow> Synchronous))
      | _ \<Rightarrow> ExecutionError)"

subsection \<open>Runs of calls\<close>



subsection \<open>A small deployment\<close>

text \<open>
  The scenario of the specification: \<^verbatim>\<open>echo\<close>, a LOW tool with one required string
  parameter, and \<^verbatim>\<open>drop-all-data\<close>, a CRITICAL tool, registered through
  \<^verbatim>\<open>_build_registry\<close>; a provider that echoes the argument \<^verbatim>\<open>text\<close>; a store that
  hands out one identifier.
\<close>

definition demo_tools :: "descriptor list" where
  "demo_tools =
     [\<lparr>d_name = ''echo'', d_description = JStr ''Echo the text'',
       inputSchema = Some \<lparr>properties = Some [(''text'', [(''type'', JStr ''string'')])],
                            required = Some [''text'']\<rparr>,
       governance = Some [(''level'', JStr ''LOW''), (''allowed'', JBool True)]\<rparr>,
      \<lparr>d_name = ''drop-all-data'', d_description = JStr ''Drop everything'',
       inputSchema = None,
       governance = Some [(''level'', JStr ''CRITICAL''), (''allowed'', JBool True)]\<rparr>]"

definition demo_world :: world where
  "demo_world =
     \<lparr>cfg = \<lparr>SAFE_MODE = True, MCP_API_KEY = ''secret''\<rparr>,
      REGISTRY = build_registry (Some demo_tools),
      time_now = 0,
      utcnow_start = 0,
      utcnow_end = 2000000,
      sha256_hex16 = (\<lambda>n t. ''0123456789abcdef''),
      memory = MemoryHelpers (\<lambda>m. Inr (JStr ''mem-1'')),
      main_extended = Server (\<lambda>n args. Inr (ResultValue (dict_get args ''text'' JNull))),
      json_loads = (\<lambda>txt. None),
      encoder_error = ''Object is not JSON serializable''\<rparr>"

definition demo_state :: gateway_state where
  "demo_state = \<lparr>critical_bucket = critical_bucket_init 0, memory_writes = [], tool_calls = []\<rparr>"


text \<open>A descriptor whose classification has no \<^verbatim>\<open>level\<close>.\<close>

definition unclassified_tool :: descriptor where
  "unclassified_tool =
     \<lparr>d_name = ''mystery'', d_description = JStr [], inputSchema = None,
      governance = Some [(''allowed'', JBool True)]\<rparr>"

text \<open>Descriptors whose classification has a level that is no tier, or a null level.\<close>

definition unknown_level_tool :: descriptor where
  "unknown_level_tool =
     \<lparr>d_name = ''experimental'', d_description = JStr [], inputSchema = None,
      governance = Some [(''level'', JStr ''UNKNOWN''), (''allowed'', JBool True)]\<rparr>"

definition null_level_tool :: descriptor where
  "null_level_tool =
     \<lparr>d_name = ''unrated'', d_description = JStr [], inputSchema = None,
      governance = Some [(''level'', JNull)]\<rparr>"

text \<open>
  The deployment with a store that hands back the arguments of the record it was given,
  and a provider that hands back the arguments it was called with.
\<close>

definition reflecting_world :: world where
  "reflecting_world =
     demo_world
       \<lparr>memory := MemoryHelpers (\<lambda>m. Inr (JObj (mem_arguments m))),
        main_extended := Server (\<lambda>n args. Inr (ResultValue (JObj args)))\<rparr>"

subsection \<open>Rounding\<close>

lemma fl_zero [simp]: "fl 0 = 0"
  by (simp add: fl_def)

lemma demo_elapsed_ms: "elapsed_ms demo_world = 2000"
proof -
  have "fl (fl (of_int (2000000 - 0) / 1000000) * 1000) = 2000"
    by code_simp
  then show ?thesis by (simp add: elapsed_ms_def demo_world_def)
qed

subsection \<open>The steps of \<^verbatim>\<open>execute\<close>, one lemma per exit\<close>

lemma execute_unknown_tool:
  "REGISTRY w (tool_name req) = None \<Longrightarrow>
   execute w req k ro s = (HTTPException 400 ''Unknown tool'', s)"
  by (simp add: execute_def)

lemma execute_unauthorized:
  "REGISTRY w (tool_name req) = Some t \<Longrightarrow>
   \<not> validate_key (cfg w) k (header_bool ro) \<Longrightarrow>
   execute w req k ro s = (HTTPException 401 ''Unauthorized: X-MCP-KEY invalid or missing'', s)"
  by (simp add: execute_def)

lemma execute_fault:
  "REGISTRY w (tool_name req) = Some t \<Longrightarrow>
   validate_key (cfg w) k (header_bool ro) \<Longrightarrow>
   critical_gate w t s = Inl e \<Longrightarrow>
   execute w req k ro s = (Unhandled e, s)"
  by (simp add: execute_def)

lemma execute_rate_limited:
  "REGISTRY w (tool_name req) = Some t \<Longrightarrow>
   validate_key (cfg w) k (header_bool ro) \<Longrightarrow>
   critical_gate w t s = Inr (False, b) \<Longrightarrow>
   execute w req k ro s =
     (HTTPException 429 ''Critical operation rate limit exceeded'', s\<lparr>critical_bucket := b\<rparr>)"
  by (simp add: execute_def)

lemma execute_pending:
  "REGISTRY w (tool_name req) = Some t \<Longrightarrow>
   validate_key (cfg w) k (header_bool ro) \<Longrightarrow>
   critical_gate w t s = Inr (True, b) \<Longrightarrow>
   approval_required t \<Longrightarrow> \<not> already_approved req \<Longrightarrow>
   execute w req k ro s =
     (case memory w of
        MemoryUnavailable \<Rightarrow>
          (JSONResponse 200 (pending_content (request_rid w req) req t JNull),
           s\<lparr>critical_bucket := b\<rparr>)
      | MemoryHelpers wr \<Rightarrow>
          (JSONResponse 200 (pending_content (request_rid w req) req t
             (case wr (approval_record req k) of Inl e \<Rightarrow> JNull | Inr i \<Rightarrow> i)),
           s\<lparr>critical_bucket := b,
             memory_writes := memory_writes s @ [approval_record req k]\<rparr>))"
  by (simp add: execute_def Let_def split: memory_helpers.splits)

lemma execute_dry_run:
  "REGISTRY w (tool_name req) = Some t \<Longrightarrow>
   validate_key (cfg w) k (header_bool ro) \<Longrightarrow>
   critical_gate w t s = Inr (True, b) \<Longrightarrow>
   \<not> (approval_required t \<and> \<not> already_approved req) \<Longrightarrow> dry_run req \<Longrightarrow>
   execute w req k ro s =
     (JSONResponse 200 (dry_run_content (request_rid w req) req t), s\<lparr>critical_bucket := b\<rparr>)"
  by (auto simp add: execute_def Let_def)

lemma execute_dispatch:
  "REGISTRY w (tool_name req) = Some t \<Longrightarrow>
   validate_key (cfg w) k (header_bool ro) \<Longrightarrow>
   critical_gate w t s = Inr (True, b) \<Longrightarrow>
   \<not> (approval_required t \<and> \<not> already_approved req) \<Longrightarrow> \<not> dry_run req \<Longrightarrow>
   main_extended w = Server call_tool \<Longrightarrow>
   execute w req k ro s =
     (case call_tool (tool_name req) (arguments req) of
        Inl msg \<Rightarrow> JSONResponse 500 (error_content (request_rid w req) req t msg)
      | Inr r \<Rightarrow>
          (case render (payload_of (json_loads w) r) of
             None \<Rightarrow> JSONResponse 500 (error_content (request_rid w req) req t (encoder_error w))
           | Some p \<Rightarrow> JSONResponse 200 (success_content w (request_rid w req) req t p)),
      s\<lparr>critical_bucket := b,
        tool_calls := tool_calls s @ [(tool_name req, arguments req)]\<rparr>)"
  by (auto simp add: execute_def Let_def split: sum.splits option.splits)

lemma execute_no_provider:
  "REGISTRY w (tool_name req) = Some t \<Longrightarrow>
   validate_key (cfg w) k (header_bool ro) \<Longrightarrow>
   critical_gate w t s = Inr (True, b) \<Longrightarrow>
   \<not> (approval_required t \<and> \<not> already_approved req) \<Longrightarrow> \<not> dry_run req \<Longrightarrow>
   main_extended w = ServerUnavailable msg \<or> main_extended w = ServerWithoutCallTool \<Longrightarrow>
   execute w req k ro s =
     (JSONResponse 500 (error_content (request_rid w req) req t
        (case main_extended w of ServerUnavailable m \<Rightarrow> m | _ \<Rightarrow> ''MCP server missing call_tool'')),
      s\<lparr>critical_bucket := b\<rparr>)"
  by (auto simp add: execute_def Let_def)

lemma critical_gate_cases:
  obtains e where "critical_gate w t s = Inl e"
  | b where "critical_gate w t s = Inr (False, b)"
  | b where "critical_gate w t s = Inr (True, b)"
  by (cases "critical_gate w t s") auto

lemma critical_gate_other_level:
  "rate_limit_level t \<noteq> JStr ''CRITICAL'' \<Longrightarrow> critical_gate w t s = Inr (True, critical_bucket s)"
  by (simp add: critical_gate_def)

lemma demo_registry_echo:
  "REGISTRY demo_world ''echo'' =
     Some \<lparr>name = ''echo'', description = JStr ''Echo the text'',
            parameters = [\<lparr>param_name = ''text'', param_type = JStr ''string'',
                           param_description = JStr [], param_required = True\<rparr>],
            rate_limit_level = JStr ''LOW'', approval_required = False\<rparr>"
  by (simp add: demo_world_def build_registry_def load_tools_from_main_def demo_tools_def
      registry_entry_def registry_params_def governance_or_default_def dict_get_def)

lemma demo_registry_drop:
  "REGISTRY demo_world ''drop-all-data'' =
     Some \<lparr>name = ''drop-all-data'', description = JStr ''Drop everything'',
            parameters = [], rate_limit_level = JStr ''CRITICAL'', approval_required = True\<rparr>"
  by (simp add: demo_world_def build_registry_def load_tools_from_main_def demo_tools_def
      registry_entry_def registry_params_def governance_or_default_def dict_get_def)

lemma demo_registry_other:
  "n \<noteq> ''echo'' \<Longrightarrow> n \<noteq> ''drop-all-data'' \<Longrightarrow> REGISTRY demo_world n = None"
  by (simp add: demo_world_def build_registry_def load_tools_from_main_def demo_tools_def)

lemma demo_world_fields:
  "cfg demo_world = \<lparr>SAFE_MODE = True, MCP_API_KEY = ''secret''\<rparr>"
  "time_now demo_world = 0"
  "utcnow_start demo_world = 0"
  "utcnow_end demo_world = 2000000"
  "sha256_hex16 demo_world = (\<lambda>n t. ''0123456789abcdef'')"
  "memory demo_world = MemoryHelpers (\<lambda>m. Inr (JStr ''mem-1''))"
  "main_extended demo_world = Server (\<lambda>n args. Inr (ResultValue (dict_get args ''text'' JNull)))"
  "json_loads demo_world = (\<lambda>txt. None)"
  "encoder_error demo_world = ''Object is not JSON serializable''"
  by (simp_all add: demo_world_def)

subsection \<open>Evaluating the deployment\<close>

lemmas demo_eval = demo_registry_echo demo_registry_drop demo_world_fields demo_state_def
  execute_def critical_gate_def can_consume_def critical_bucket_init_def Bucket_init_def
  validate_key_def header_bool_def request_rid_def already_approved_def dict_get_def dict_keys_def
  pending_content_def dry_run_content_def success_content_def error_content_def approval_record_def
  payload_of_def render_def Let_def

lemma result_of_contents [simp]:
  "result (pending_content rid req t m) = Some (ApprovalResult True m)"
  "result (dry_run_content rid req t) = Some (DryRunResult True (dict_keys (arguments req)))"
  "result (error_content rid req t msg) = None"
  "result (success_content w rid req t p) = Some (Payload p)"
  by (simp_all add: pending_content_def dry_run_content_def error_content_def success_content_def)

lemma execute_outcome_by_gate:
  assumes reg: "REGISTRY w (tool_name req) = Some t"
      and auth: "validate_key (cfg w) k (header_bool ro)"
  shows "outcome_of (fst (execute w req k ro s)) =
           (case critical_gate w t s of
              Inl e \<Rightarrow> Fault
            | Inr (ok, b) \<Rightarrow>
                if \<not> ok then RateLimited
                else if approval_required t \<and> \<not> already_approved req then ApprovalPending
                else if dry_run req then DryRun
                else dispatch_outcome w req)
       \<and> critical_bucket (snd (execute w req k ro s)) =
           (case critical_gate w t s of Inl e \<Rightarrow> critical_bucket s | Inr (ok, b) \<Rightarrow> b)"
proof (cases rule: critical_gate_cases [of w t s])
  case (1 e)
  then show ?thesis using execute_fault [OF reg auth] by simp
next
  case (2 b)
  then show ?thesis using execute_rate_limited [OF reg auth] by simp
next
  case (3 b)
  show ?thesis
  proof (cases "approval_required t \<and> \<not> already_approved req")
    case True
    then show ?thesis using 3 execute_pending [OF reg auth 3]
      by (simp split: memory_helpers.splits)
  next
    case notpending: False
    show ?thesis
    proof (cases "dry_run req")
      case True
      then show ?thesis using 3 notpending execute_dry_run [OF reg auth 3 notpending] by simp
    next
      case False
      show ?thesis
      proof (cases "main_extended w")
        case (Server f)
        then show ?thesis
          using 3 notpending False execute_dispatch [OF reg auth 3 notpending False Server]
          by (simp add: dispatch_outcome_def split: sum.splits option.splits)
      next
        case (ServerUnavailable m)
        then show ?thesis
          using 3 notpending False execute_no_provider [OF reg auth 3 notpending False, of m]
          by (simp add: dispatch_outcome_def)
      next
        case ServerWithoutCallTool
        then show ?thesis
          using 3 notpending False execute_no_provider [OF reg auth 3 notpending False]
          by (simp add: dispatch_outcome_def)
      qed
    qed
  qed
qed


subsection \<open>The order of the checks\<close>

text \<open>
  C1 (as amended). For an authenticated request on a registered tool the checks run in the
  order of the source: the bucket (CRITICAL tools only), then the approval step, then dry
  run, then the awaited call. A dry-run request gets the dry-run outcome exactly when it is
  neither rate limited nor pending, and the bucket it leaves behind is the one
  \<^verbatim>\<open>can_consume\<close> returned: a CRITICAL dry run spends a token.
\<close>

theorem execute_check_order:
  assumes reg: "REGISTRY w (tool_name req) = Some t"
      and auth: "validate_key (cfg w) k (header_bool ro)"
  shows "outcome_of (fst (execute w req k ro s)) =
           (case critical_gate w t s of
              Inl e \<Rightarrow> Fault
            | Inr (ok, b) \<Rightarrow>
                if \<not> ok then RateLimited
                else if approval_required t \<and> \<not> already_approved req then ApprovalPending
                else if dry_run req then DryRun
                else dispatch_outcome w req)
       \<and> critical_bucket (snd (execute w req k ro s)) =
           (case critical_gate w t s of Inl e \<Rightarrow> critical_bucket s | Inr (ok, b) \<Rightarrow> b)"
  using execute_outcome_by_gate [OF reg auth] .

lemmas demo_gate = demo_registry_echo demo_registry_drop demo_world_fields demo_state_def
  critical_gate_def can_consume_def critical_bucket_init_def Bucket_init_def
  validate_key_def header_bool_def already_approved_def dict_get_def Let_def

text \<open>A dry run of the LOW tool: the bucket is not touched.\<close>

theorem execute_check_order_witness:
  "REGISTRY demo_world ''echo'' \<noteq> None
   \<and> validate_key (cfg demo_world) (Some ''secret'') (header_bool None)
   \<and> outcome_of (fst (execute demo_world
         \<lparr>tool_name = ''echo'', arguments = [], dry_run = True, request_id = None\<rparr>
         (Some ''secret'') None demo_state)) = DryRun
   \<and> critical_bucket (snd (execute demo_world
         \<lparr>tool_name = ''echo'', arguments = [], dry_run = True, request_id = None\<rparr>
         (Some ''secret'') None demo_state)) = critical_bucket demo_state"
  using execute_check_order [of demo_world
      "\<lparr>tool_name = ''echo'', arguments = [], dry_run = True, request_id = None\<rparr>"
      _ "Some ''secret''" None demo_state]
  by (simp add: demo_gate)

text \<open>
  C1 as stated fails: a dry run of the CRITICAL tool is answered with the pending outcome
  and takes the bucket from 5 to 4 tokens; on an empty bucket it is answered 429.
\<close>

theorem dry_run_not_first_counterexample:
  "outcome_of (fst (execute demo_world
       \<lparr>tool_name = ''drop-all-data'', arguments = [], dry_run = True, request_id = Some ''r1''\<rparr>
       (Some ''secret'') None demo_state)) = ApprovalPending
   \<and> tokens (critical_bucket demo_state) = PyInt 5
   \<and> tokens (critical_bucket (snd (execute demo_world
       \<lparr>tool_name = ''drop-all-data'', arguments = [], dry_run = True, request_id = Some ''r1''\<rparr>
       (Some ''secret'') None demo_state))) = PyInt 4
   \<and> outcome_of (fst (execute demo_world
       \<lparr>tool_name = ''drop-all-data'', arguments = [], dry_run = True, request_id = Some ''r1''\<rparr>
       (Some ''secret'') None
       (demo_state\<lparr>critical_bucket := (critical_bucket_init 0)\<lparr>tokens := PyInt 0\<rparr>\<rparr>))) = RateLimited"
  by (simp add: demo_eval)

subsection \<open>Dry run\<close>

text \<open>
  C2 (as amended). An authenticated dry run of a registered tool never calls the provider.
  When it is neither rate limited nor pending, the result lists the names of the arguments
  the request provided (\<^verbatim>\<open>parameters_provided\<close>), and the envelope carries the tool's
  level.
\<close>

theorem dry_run_never_invokes:
  assumes reg: "REGISTRY w (tool_name req) = Some t"
      and auth: "validate_key (cfg w) k (header_bool ro)"
      and dry: "dry_run req"
  shows "tool_calls (snd (execute w req k ro s)) = tool_calls s
       \<and> (critical_gate w t s = Inr (True, b) \<and> (approval_required t \<longrightarrow> already_approved req) \<longrightarrow>
            fst (execute w req k ro s) =
              JSONResponse 200
                \<lparr>success = True, resp_request_id = request_rid w req,
                 resp_tool_name = tool_name req,
                 result = Some (DryRunResult True (map fst (arguments req))),
                 error = None, execution_time_ms = PyInt 0,
                 governance_level = rate_limit_level t\<rparr>)"
proof (cases rule: critical_gate_cases [of w t s])
  case (1 e)
  then show ?thesis using execute_fault [OF reg auth] by simp
next
  case (2 b')
  then show ?thesis using execute_rate_limited [OF reg auth] by simp
next
  case (3 b')
  show ?thesis
  proof (cases "approval_required t \<and> \<not> already_approved req")
    case True
    then show ?thesis using 3 execute_pending [OF reg auth 3]
      by (simp split: memory_helpers.splits)
  next
    case False
    then show ?thesis using 3 dry execute_dry_run [OF reg auth 3 False dry]
      by (simp add: dry_run_content_def dict_keys_def)
  qed
qed

text \<open>A dry run of \<^verbatim>\<open>echo\<close> with its argument: nothing changes.\<close>

theorem dry_run_never_invokes_witness:
  "REGISTRY demo_world ''echo'' \<noteq> None
   \<and> validate_key (cfg demo_world) (Some ''secret'') (header_bool None)
   \<and> execute demo_world
         \<lparr>tool_name = ''echo'', arguments = [(''text'', JStr ''hi'')], dry_run = True,
          request_id = Some ''r2''\<rparr>
         (Some ''secret'') None demo_state =
       (JSONResponse 200
          \<lparr>success = True, resp_request_id = ''r2'', resp_tool_name = ''echo'',
           result = Some (DryRunResult True [''text'']),
           error = None, execution_time_ms = PyInt 0, governance_level = JStr ''LOW''\<rparr>,
        demo_state)"
proof -
  let ?req = "\<lparr>tool_name = ''echo'', arguments = [(''text'', JStr ''hi'')], dry_run = True,
          request_id = Some ''r2''\<rparr>"
  let ?r = "execute demo_world ?req (Some ''secret'') None demo_state"
  have "tool_calls (snd ?r) = tool_calls demo_state \<and>
        fst ?r = JSONResponse 200
          \<lparr>success = True, resp_request_id = ''r2'', resp_tool_name = ''echo'',
           result = Some (DryRunResult True [''text'']),
           error = None, execution_time_ms = PyInt 0, governance_level = JStr ''LOW''\<rparr>"
    using dry_run_never_invokes [of demo_world ?req _ "Some ''secret''" None demo_state
        "critical_bucket demo_state"]
    by (simp add: demo_gate request_rid_def)
  moreover have "snd ?r = demo_state"
    by (simp add: demo_eval)
  ultimately show ?thesis
    by (simp add: demo_gate prod_eq_iff)
qed

text \<open>
  C2 as stated fails: the result of a dry run holds the keys of the request's arguments,
  here \<^verbatim>\<open>foo\<close>, while the registered parameter list of \<^verbatim>\<open>echo\<close> is \<^verbatim>\<open>text\<close>.
\<close>

theorem dry_run_result_counterexample:
  "fst (execute demo_world
         \<lparr>tool_name = ''echo'', arguments = [(''foo'', JInt 1)], dry_run = True,
          request_id = Some ''r3''\<rparr>
         (Some ''secret'') None demo_state) =
     JSONResponse 200
       \<lparr>success = True, resp_request_id = ''r3'', resp_tool_name = ''echo'',
        result = Some (DryRunResult True [''foo'']),
        error = None, execution_time_ms = PyInt 0, governance_level = JStr ''LOW''\<rparr>
   \<and> map_option (map param_name \<circ> parameters) (REGISTRY demo_world ''echo'') = Some [''text'']"
  by (simp add: demo_eval)


subsection \<open>The approval step\<close>

text \<open>
  C3 (as amended). For a tool that requires approval: a call without the marker never calls
  the provider and, when the bucket lets it through, gets the pending outcome; a call the
  bucket rejects is answered 429 whatever the marker; a call with the marker that the
  bucket lets through, and that is not a dry run, calls the provider exactly once.
\<close>

theorem approval_two_phase:
  assumes reg: "REGISTRY w (tool_name req) = Some t"
      and auth: "validate_key (cfg w) k (header_bool ro)"
      and appr: "approval_required t"
  shows "(\<not> already_approved req \<longrightarrow> tool_calls (snd (execute w req k ro s)) = tool_calls s)
       \<and> (\<not> already_approved req \<and> critical_gate w t s = Inr (True, b) \<longrightarrow>
            outcome_of (fst (execute w req k ro s)) = ApprovalPending)
       \<and> (critical_gate w t s = Inr (False, b) \<longrightarrow>
            execute w req k ro s =
              (HTTPException 429 ''Critical operation rate limit exceeded'',
               s\<lparr>critical_bucket := b\<rparr>))
       \<and> (already_approved req \<and> critical_gate w t s = Inr (True, b) \<and> \<not> dry_run req
            \<and> main_extended w = Server call_tool \<longrightarrow>
            tool_calls (snd (execute w req k ro s)) =
              tool_calls s @ [(tool_name req, arguments req)]
            \<and> outcome_of (fst (execute w req k ro s)) = dispatch_outcome w req)"
proof -
  have no_call: "tool_calls (snd (execute w req k ro s)) = tool_calls s"
    if unapproved: "\<not> already_approved req"
  proof (cases rule: critical_gate_cases [of w t s])
    case (1 e)
    then show ?thesis using execute_fault [OF reg auth] by simp
  next
    case (2 b')
    then show ?thesis using execute_rate_limited [OF reg auth] by simp
  next
    case (3 b')
    then show ?thesis using execute_pending [OF reg auth 3 appr unapproved]
      by (simp split: memory_helpers.splits)
  qed
  have pending: "outcome_of (fst (execute w req k ro s)) = ApprovalPending"
    if "\<not> already_approved req" and "critical_gate w t s = Inr (True, b)"
    using execute_pending [OF reg auth that(2) appr that(1)]
    by (simp split: memory_helpers.splits)
  have limited: "execute w req k ro s =
      (HTTPException 429 ''Critical operation rate limit exceeded'', s\<lparr>critical_bucket := b\<rparr>)"
    if "critical_gate w t s = Inr (False, b)"
    using execute_rate_limited [OF reg auth that] .
  have once: "tool_calls (snd (execute w req k ro s)) = tool_calls s @ [(tool_name req, arguments req)]
      \<and> outcome_of (fst (execute w req k ro s)) = dispatch_outcome w req"
    if "already_approved req" and gate: "critical_gate w t s = Inr (True, b)"
      and nodry: "\<not> dry_run req" and srv: "main_extended w = Server call_tool"
  proof -
    from that(1) have np: "\<not> (approval_required t \<and> \<not> already_approved req)" by simp
    show ?thesis
      using execute_dispatch [OF reg auth gate np nodry srv] srv
      by (simp add: dispatch_outcome_def split: sum.splits option.splits)
  qed
  from no_call pending limited once show ?thesis by blast
qed

text \<open>The CRITICAL tool: first without the marker, then with it, then on an empty bucket.\<close>

theorem approval_two_phase_witness:
  "REGISTRY demo_world ''drop-all-data'' \<noteq> None
   \<and> validate_key (cfg demo_world) (Some ''secret'') (header_bool None)
   \<and> outcome_of (fst (execute demo_world
        \<lparr>tool_name = ''drop-all-data'', arguments = [], dry_run = False, request_id = None\<rparr>
        (Some ''secret'') None demo_state)) = ApprovalPending
   \<and> tool_calls (snd (execute demo_world
        \<lparr>tool_name = ''drop-all-data'', arguments = [], dry_run = False, request_id = None\<rparr>
        (Some ''secret'') None demo_state)) = []
   \<and> tool_calls (snd (execute demo_world
        \<lparr>tool_name = ''drop-all-data'', arguments = [(''_approved'', JBool True)],
         dry_run = False, request_id = None\<rparr>
        (Some ''secret'') None demo_state)) =
       [(''drop-all-data'', [(''_approved'', JBool True)])]
   \<and> execute demo_world
        \<lparr>tool_name = ''drop-all-data'', arguments = [(''_approved'', JBool True)],
         dry_run = False, request_id = None\<rparr>
        (Some ''secret'') None
        (demo_state\<lparr>critical_bucket := (critical_bucket_init 0)\<lparr>tokens := PyInt 0\<rparr>\<rparr>) =
       (HTTPException 429 ''Critical operation rate limit exceeded'',
        demo_state\<lparr>critical_bucket := (critical_bucket_init 0)\<lparr>tokens := PyInt 0\<rparr>\<rparr>)"
  using approval_two_phase [of demo_world
      "\<lparr>tool_name = ''drop-all-data'', arguments = [], dry_run = False, request_id = None\<rparr>"
      _ "Some ''secret''" None demo_state
      "(critical_bucket_init 0)\<lparr>tokens := PyInt 4\<rparr>"]
    approval_two_phase [of demo_world
      "\<lparr>tool_name = ''drop-all-data'', arguments = [(''_approved'', JBool True)],
         dry_run = False, request_id = None\<rparr>"
      _ "Some ''secret''" None demo_state
      "(critical_bucket_init 0)\<lparr>tokens := PyInt 4\<rparr>"
      "\<lambda>n args. Inr (ResultValue (dict_get args ''text'' JNull))"]
    approval_two_phase [of demo_world
      "\<lparr>tool_name = ''drop-all-data'', arguments = [(''_approved'', JBool True)],
         dry_run = False, request_id = None\<rparr>"
      _ "Some ''secret''" None
      "demo_state\<lparr>critical_bucket := (critical_bucket_init 0)\<lparr>tokens := PyInt 0\<rparr>\<rparr>"
      "(critical_bucket_init 0)\<lparr>tokens := PyInt 0\<rparr>"]
  by (simp add: demo_gate)

text \<open>
  C3 as stated fails: without the marker, on an empty bucket, the answer is 429 and not
  the pending outcome.
\<close>

theorem pending_when_exhausted_counterexample:
  "approval_required (the (REGISTRY demo_world ''drop-all-data''))
   \<and> \<not> already_approved
        \<lparr>tool_name = ''drop-all-data'', arguments = [], dry_run = False, request_id = Some ''r4''\<rparr>
   \<and> execute demo_world
        \<lparr>tool_name = ''drop-all-data'', arguments = [], dry_run = False, request_id = Some ''r4''\<rparr>
        (Some ''secret'') None
        (demo_state\<lparr>critical_bucket := (critical_bucket_init 0)\<lparr>tokens := PyInt 0\<rparr>\<rparr>) =
       (HTTPException 429 ''Critical operation rate limit exceeded'',
        demo_state\<lparr>critical_bucket := (critical_bucket_init 0)\<lparr>tokens := PyInt 0\<rparr>\<rparr>)"
  by (simp add: demo_eval)


subsection \<open>The auth gate\<close>

text \<open>
  C5 (as amended). The gate lets a request through exactly when enforcement is off, or the
  key header equals the secret, or the read-only header is set. A request that fails all
  three leaves the state as it was (no token, no approval record, no call) and is rejected:
  as unauthorized when the tool is registered, as an unknown tool otherwise.
\<close>

theorem auth_gate_rejects_without_effects:
  "(validate_key c key read_only \<longleftrightarrow>
      \<not> SAFE_MODE c \<or> key = Some (MCP_API_KEY c) \<or> read_only)
   \<and> (\<not> validate_key (cfg w) k (header_bool ro) \<longrightarrow>
        snd (execute w req k ro s) = s
        \<and> fst (execute w req k ro s) =
            (case REGISTRY w (tool_name req) of
               None \<Rightarrow> HTTPException 400 ''Unknown tool''
             | Some t \<Rightarrow> HTTPException 401 ''Unauthorized: X-MCP-KEY invalid or missing''))
   \<and> (REGISTRY w (tool_name req) \<noteq> None \<longrightarrow>
        (outcome_of (fst (execute w req k ro s)) = Unauthorized
           \<longleftrightarrow> \<not> validate_key (cfg w) k (header_bool ro)))"
proof -
  have iff: "validate_key c key read_only \<longleftrightarrow>
      \<not> SAFE_MODE c \<or> key = Some (MCP_API_KEY c) \<or> read_only"
    by (simp add: validate_key_def)
  have rejected: "snd (execute w req k ro s) = s
        \<and> fst (execute w req k ro s) =
            (case REGISTRY w (tool_name req) of
               None \<Rightarrow> HTTPException 400 ''Unknown tool''
             | Some t \<Rightarrow> HTTPException 401 ''Unauthorized: X-MCP-KEY invalid or missing'')"
    if "\<not> validate_key (cfg w) k (header_bool ro)"
  proof (cases "REGISTRY w (tool_name req)")
    case None
    then show ?thesis using execute_unknown_tool [OF None] by simp
  next
    case (Some t)
    then show ?thesis using execute_unauthorized [OF Some that] by simp
  qed
  have gate: "outcome_of (fst (execute w req k ro s)) = Unauthorized
           \<longleftrightarrow> \<not> validate_key (cfg w) k (header_bool ro)"
    if "REGISTRY w (tool_name req) \<noteq> None"
  proof -
    from that obtain t where reg: "REGISTRY w (tool_name req) = Some t" by auto
    show ?thesis
    proof (cases "validate_key (cfg w) k (header_bool ro)")
      case False
      then show ?thesis using execute_unauthorized [OF reg False] by simp
    next
      case True
      have "outcome_of (fst (execute w req k ro s)) \<noteq> Unauthorized"
        using execute_outcome_by_gate [OF reg True, of s]
        by (auto simp add: dispatch_outcome_def
            split: sum.splits bool.splits if_splits mcp_server.splits option.splits)
      then show ?thesis using True by simp
    qed
  qed
  from iff rejected gate show ?thesis by blast
qed


text \<open>A wrong key on the CRITICAL tool.\<close>

theorem auth_gate_rejects_without_effects_witness:
  "\<not> validate_key (cfg demo_world) (Some ''wrong'') (header_bool None)
   \<and> REGISTRY demo_world ''drop-all-data'' \<noteq> None
   \<and> execute demo_world
        \<lparr>tool_name = ''drop-all-data'', arguments = [], dry_run = False, request_id = None\<rparr>
        (Some ''wrong'') None demo_state =
       (HTTPException 401 ''Unauthorized: X-MCP-KEY invalid or missing'', demo_state)
   \<and> outcome_of (fst (execute demo_world
        \<lparr>tool_name = ''drop-all-data'', arguments = [], dry_run = False, request_id = None\<rparr>
        (Some ''wrong'') None demo_state)) = Unauthorized"
  using auth_gate_rejects_without_effects [of _ _ _ demo_world "Some ''wrong''" None
      "\<lparr>tool_name = ''drop-all-data'', arguments = [], dry_run = False, request_id = None\<rparr>"
      demo_state]
  by (simp add: demo_gate prod_eq_iff)

text \<open>
  C5 as stated fails: a request that fails all three conditions and names an unregistered
  tool is not rejected as unauthorized but as an unknown tool.
\<close>

theorem unauthorized_unknown_tool_counterexample:
  "\<not> validate_key (cfg demo_world) (Some ''wrong'') (header_bool (Some False))
   \<and> execute demo_world
        \<lparr>tool_name = ''missing'', arguments = [], dry_run = False, request_id = None\<rparr>
        (Some ''wrong'') (Some False) demo_state =
       (HTTPException 400 ''Unknown tool'', demo_state)
   \<and> outcome_of (fst (execute demo_world
        \<lparr>tool_name = ''missing'', arguments = [], dry_run = False, request_id = None\<rparr>
        (Some ''wrong'') (Some False) demo_state)) \<noteq> Unauthorized"
  by (simp add: demo_gate execute_def demo_registry_other)

subsection \<open>A failing durable store\<close>

text \<open>
  C6. When the request reaches the approval step and the write to the durable store fails
  (the import fails or \<^verbatim>\<open>write_local_memory\<close> raises), the caller still gets the
  pending envelope, status 200, with \<^verbatim>\<open>approval_required\<close> true and a null
  \<^verbatim>\<open>memory_id\<close>; the provider is not called and nothing escapes.
\<close>

theorem persistence_failure_still_pending:
  assumes reg: "REGISTRY w (tool_name req) = Some t"
      and auth: "validate_key (cfg w) k (header_bool ro)"
      and gate: "critical_gate w t s = Inr (True, b)"
      and appr: "approval_required t"
      and unapproved: "\<not> already_approved req"
      and fails: "case memory w of
                    MemoryUnavailable \<Rightarrow> True
                  | MemoryHelpers write_local_memory \<Rightarrow>
                      isl (write_local_memory (approval_record req k))"
  shows "fst (execute w req k ro s) =
           JSONResponse 200
             \<lparr>success = False, resp_request_id = request_rid w req,
              resp_tool_name = tool_name req,
              result = Some (ApprovalResult True JNull),
              error = Some ''approval_required'', execution_time_ms = PyInt 0,
              governance_level = rate_limit_level t\<rparr>
       \<and> tool_calls (snd (execute w req k ro s)) = tool_calls s"
  using execute_pending [OF reg auth gate appr unapproved] fails
  by (auto simp add: pending_content_def isl_def split: memory_helpers.splits)

text \<open>The CRITICAL tool with a store that raises.\<close>

theorem persistence_failure_still_pending_witness:
  "REGISTRY (demo_world\<lparr>memory := MemoryHelpers (\<lambda>m. Inl ''store unreachable'')\<rparr>)
      ''drop-all-data'' \<noteq> None
   \<and> execute (demo_world\<lparr>memory := MemoryHelpers (\<lambda>m. Inl ''store unreachable'')\<rparr>)
        \<lparr>tool_name = ''drop-all-data'', arguments = [], dry_run = False, request_id = Some ''r6''\<rparr>
        (Some ''secret'') None demo_state =
       (JSONResponse 200
          \<lparr>success = False, resp_request_id = ''r6'', resp_tool_name = ''drop-all-data'',
           result = Some (ApprovalResult True JNull),
           error = Some ''approval_required'', execution_time_ms = PyInt 0,
           governance_level = JStr ''CRITICAL''\<rparr>,
        demo_state\<lparr>critical_bucket := (critical_bucket_init 0)\<lparr>tokens := PyInt 4\<rparr>,
                   memory_writes :=
                     [\<lparr>mem_type = ''tool_request'', mem_tool_name = ''drop-all-data'',
                       mem_arguments = [], requires_approval = True,
                       approval_status = ''pending'', requested_by = ''secret''\<rparr>]\<rparr>)"
proof -
  let ?w = "demo_world\<lparr>memory := MemoryHelpers (\<lambda>m. Inl ''store unreachable'')\<rparr>"
  let ?req = "\<lparr>tool_name = ''drop-all-data'', arguments = [], dry_run = False,
                request_id = Some ''r6''\<rparr>"
  let ?r = "execute ?w ?req (Some ''secret'') None demo_state"
  have "fst ?r = JSONResponse 200
          \<lparr>success = False, resp_request_id = ''r6'', resp_tool_name = ''drop-all-data'',
           result = Some (ApprovalResult True JNull),
           error = Some ''approval_required'', execution_time_ms = PyInt 0,
           governance_level = JStr ''CRITICAL''\<rparr>"
    using persistence_failure_still_pending [of ?w ?req _ "Some ''secret''" None demo_state
        "(critical_bucket_init 0)\<lparr>tokens := PyInt 4\<rparr>"]
    by (simp add: demo_gate request_rid_def)
  moreover have "snd ?r = demo_state\<lparr>critical_bucket := (critical_bucket_init 0)\<lparr>tokens := PyInt 4\<rparr>,
                   memory_writes :=
                     [\<lparr>mem_type = ''tool_request'', mem_tool_name = ''drop-all-data'',
                       mem_arguments = [], requires_approval = True,
                       approval_status = ''pending'', requested_by = ''secret''\<rparr>]\<rparr>"
    by (simp add: demo_eval)
  ultimately show ?thesis
    by (simp add: demo_gate prod_eq_iff)
qed

subsection \<open>Registry lookup and auth gate\<close>

text \<open>
  C8 (as amended). The registry lookup comes before the auth gate: an unregistered tool
  name is answered 400 whatever the credentials, and a request for a registered tool that
  fails the gate is answered 401; neither changes the state.
\<close>

theorem registry_lookup_precedes_auth:
  "(REGISTRY w (tool_name req) = None \<longrightarrow>
      execute w req k ro s = (HTTPException 400 ''Unknown tool'', s))
   \<and> (REGISTRY w (tool_name req) = Some t \<and> \<not> validate_key (cfg w) k (header_bool ro) \<longrightarrow>
      execute w req k ro s =
        (HTTPException 401 ''Unauthorized: X-MCP-KEY invalid or missing'', s))"
  using execute_unknown_tool [of w req k ro s] execute_unauthorized [of w req t k ro s]
  by blast

text \<open>An unregistered name with the right key, and \<^verbatim>\<open>echo\<close> without a key.\<close>

theorem registry_lookup_precedes_auth_witness:
  "REGISTRY demo_world ''nope'' = None
   \<and> execute demo_world
        \<lparr>tool_name = ''nope'', arguments = [], dry_run = False, request_id = None\<rparr>
        (Some ''secret'') None demo_state = (HTTPException 400 ''Unknown tool'', demo_state)
   \<and> REGISTRY demo_world ''echo'' \<noteq> None
   \<and> \<not> validate_key (cfg demo_world) None (header_bool None)
   \<and> execute demo_world
        \<lparr>tool_name = ''echo'', arguments = [], dry_run = False, request_id = None\<rparr>
        None None demo_state =
       (HTTPException 401 ''Unauthorized: X-MCP-KEY invalid or missing'', demo_state)"
  using registry_lookup_precedes_auth [of demo_world
      "\<lparr>tool_name = ''nope'', arguments = [], dry_run = False, request_id = None\<rparr>"
      "Some ''secret''" None demo_state]
    registry_lookup_precedes_auth [of demo_world
      "\<lparr>tool_name = ''echo'', arguments = [], dry_run = False, request_id = None\<rparr>"
      None None demo_state]
  by (simp add: demo_gate demo_registry_other)

text \<open>
  C8 as stated fails: without credentials, with enforcement on, the answer for an
  unregistered name is 400 and the answer for a registered one is 401.
\<close>

theorem unauthenticated_response_depends_on_name_counterexample:
  "SAFE_MODE (cfg demo_world)
   \<and> \<not> validate_key (cfg demo_world) None (header_bool None)
   \<and> fst (execute demo_world
        \<lparr>tool_name = ''nope'', arguments = [], dry_run = False, request_id = Some ''r9''\<rparr>
        None None demo_state) = HTTPException 400 ''Unknown tool''
   \<and> fst (execute demo_world
        \<lparr>tool_name = ''echo'', arguments = [], dry_run = False, request_id = Some ''r9''\<rparr>
        None None demo_state) = HTTPException 401 ''Unauthorized: X-MCP-KEY invalid or missing''"
  by (simp add: demo_gate execute_def demo_registry_other)

subsection \<open>The bucket\<close>















subsection \<open>No background execution\<close>

text \<open>
  C7 (as amended). \<^verbatim>\<open>ExecuteRequest\<close> declares no background field, so a
  \<^verbatim>\<open>background\<close> key in the body changes nothing: a request that passes the auth gate,
  the bucket and the approval step, and is not a dry run, is dispatched synchronously.
  With a provider, \<^verbatim>\<open>call_tool\<close> is called once with the request's arguments and awaited:
  a result that can be encoded is the \<^verbatim>\<open>result\<close> of the 200 response, with the measured
  time; an exception or a result that cannot be encoded gives the 500 error envelope.
  Without a provider nothing is called and the answer is the 500 error envelope. There is
  no acknowledgment.
\<close>

theorem execute_always_awaits:
  assumes reg: "REGISTRY w (body_tool_name body) = Some t"
      and auth: "validate_key (cfg w) k (header_bool ro)"
      and gate: "critical_gate w t s = Inr (True, b)"
      and cleared: "approval_required t \<longrightarrow> already_approved (ExecuteRequest_of_body body)"
      and nodry: "body_dry_run body \<noteq> Some True"
  shows "execute_body w (body\<lparr>body_extra := extra\<rparr>) k ro s = execute_body w body k ro s
       \<and> execute_body w body k ro s =
           (case main_extended w of
              ServerUnavailable msg \<Rightarrow>
                (JSONResponse 500
                   \<lparr>success = False,
                    resp_request_id = request_rid w (ExecuteRequest_of_body body),
                    resp_tool_name = body_tool_name body,
                    result = None, error = Some msg, execution_time_ms = PyInt 0,
                    governance_level = rate_limit_level t\<rparr>,
                 s\<lparr>critical_bucket := b\<rparr>)
            | ServerWithoutCallTool \<Rightarrow>
                (JSONResponse 500
                   \<lparr>success = False,
                    resp_request_id = request_rid w (ExecuteRequest_of_body body),
                    resp_tool_name = body_tool_name body,
                    result = None, error = Some ''MCP server missing call_tool'',
                    execution_time_ms = PyInt 0,
                    governance_level = rate_limit_level t\<rparr>,
                 s\<lparr>critical_bucket := b\<rparr>)
            | Server call_tool \<Rightarrow>
                (case call_tool (body_tool_name body)
                        (case body_arguments body of None \<Rightarrow> [] | Some a \<Rightarrow> a) of
                   Inl msg \<Rightarrow>
                     JSONResponse 500
                       \<lparr>success = False,
                        resp_request_id = request_rid w (ExecuteRequest_of_body body),
                        resp_tool_name = body_tool_name body,
                        result = None, error = Some msg, execution_time_ms = PyInt 0,
                        governance_level = rate_limit_level t\<rparr>
                 | Inr r \<Rightarrow>
                     (case render (payload_of (json_loads w) r) of
                        None \<Rightarrow>
                          JSONResponse 500
                            \<lparr>success = False,
                             resp_request_id = request_rid w (ExecuteRequest_of_body body),
                             resp_tool_name = body_tool_name body,
                             result = None, error = Some (encoder_error w),
                             execution_time_ms = PyInt 0,
                             governance_level = rate_limit_level t\<rparr>
                      | Some p \<Rightarrow>
                          JSONResponse 200
                            \<lparr>success = True,
                             resp_request_id = request_rid w (ExecuteRequest_of_body body),
                             resp_tool_name = body_tool_name body,
                             result = Some (Payload p), error = None,
                             execution_time_ms =
                               PyFloat (fl (fl (of_int (utcnow_end w - utcnow_start w) / 1000000)
                                            * 1000)),
                             governance_level = rate_limit_level t\<rparr>),
                 s\<lparr>critical_bucket := b,
                   tool_calls := tool_calls s
                      @ [(body_tool_name body,
                          case body_arguments body of None \<Rightarrow> [] | Some a \<Rightarrow> a)]\<rparr>))"
proof -
  let ?req = "ExecuteRequest_of_body body"
  have name: "tool_name ?req = body_tool_name body"
    and args: "arguments ?req = (case body_arguments body of None \<Rightarrow> [] | Some a \<Rightarrow> a)"
    by (simp_all add: ExecuteRequest_of_body_def)
  have same: "ExecuteRequest_of_body (body\<lparr>body_extra := extra\<rparr>) = ?req"
    by (simp add: ExecuteRequest_of_body_def)
  have reg': "REGISTRY w (tool_name ?req) = Some t" using reg name by simp
  have np: "\<not> (approval_required t \<and> \<not> already_approved ?req)" using cleared by simp
  have nd: "\<not> dry_run ?req"
    using nodry by (auto simp add: ExecuteRequest_of_body_def split: option.splits)
  have extra: "execute_body w (body\<lparr>body_extra := extra\<rparr>) k ro s = execute_body w body k ro s"
    using same by (simp add: execute_body_def)
  show ?thesis
  proof (cases "main_extended w")
    case (Server call_tool)
    show ?thesis
      using execute_dispatch [OF reg' auth gate np nd Server] Server name args extra
      by (simp add: execute_body_def success_content_def error_content_def elapsed_ms_def
          split: sum.splits option.splits)
  next
    case (ServerUnavailable msg)
    then show ?thesis
      using execute_no_provider [OF reg' auth gate np nd, of msg] name extra
      by (simp add: execute_body_def error_content_def)
  next
    case ServerWithoutCallTool
    then show ?thesis
      using execute_no_provider [OF reg' auth gate np nd] name extra
      by (simp add: execute_body_def error_content_def)
  qed
qed

text \<open>1.001 seconds, in milliseconds: the float product is just below 1001.\<close>

lemma elapsed_1001_ms:
  "fl (fl (of_int (1001000 - 0) / 1000000) * 1000) = 8804889115230207 / 8796093022208"
  by code_simp

text \<open>\<^verbatim>\<open>echo\<close> with a provider that answers, one that raises, and none.\<close>

theorem execute_always_awaits_witness:
  "REGISTRY demo_world ''echo'' \<noteq> None
   \<and> execute_body (demo_world\<lparr>utcnow_end := 1001000\<rparr>)
        \<lparr>body_tool_name = ''echo'', body_arguments = Some [(''text'', JStr ''hi'')],
         body_dry_run = None, body_request_id = Some ''r7'', body_extra = []\<rparr>
        (Some ''secret'') None demo_state =
       (JSONResponse 200
          \<lparr>success = True, resp_request_id = ''r7'', resp_tool_name = ''echo'',
           result = Some (Payload (JStr ''hi'')), error = None,
           execution_time_ms = PyFloat (8804889115230207 / 8796093022208),
           governance_level = JStr ''LOW''\<rparr>,
        demo_state\<lparr>tool_calls := [(''echo'', [(''text'', JStr ''hi'')])]\<rparr>)
   \<and> execute_body (demo_world\<lparr>main_extended := Server (\<lambda>n args. Inl ''boom'')\<rparr>)
        \<lparr>body_tool_name = ''echo'', body_arguments = Some [(''text'', JStr ''hi'')],
         body_dry_run = None, body_request_id = Some ''r7'', body_extra = []\<rparr>
        (Some ''secret'') None demo_state =
       (JSONResponse 500
          \<lparr>success = False, resp_request_id = ''r7'', resp_tool_name = ''echo'',
           result = None, error = Some ''boom'', execution_time_ms = PyInt 0,
           governance_level = JStr ''LOW''\<rparr>,
        demo_state\<lparr>tool_calls := [(''echo'', [(''text'', JStr ''hi'')])]\<rparr>)
   \<and> execute_body (demo_world\<lparr>main_extended := ServerWithoutCallTool\<rparr>)
        \<lparr>body_tool_name = ''echo'', body_arguments = Some [(''text'', JStr ''hi'')],
         body_dry_run = None, body_request_id = Some ''r7'', body_extra = []\<rparr>
        (Some ''secret'') None demo_state =
       (JSONResponse 500
          \<lparr>success = False, resp_request_id = ''r7'', resp_tool_name = ''echo'',
           result = None, error = Some ''MCP server missing call_tool'',
           execution_time_ms = PyInt 0, governance_level = JStr ''LOW''\<rparr>,
        demo_state)"
  using execute_always_awaits [of "demo_world\<lparr>utcnow_end := 1001000\<rparr>"
      "\<lparr>body_tool_name = ''echo'', body_arguments = Some [(''text'', JStr ''hi'')],
         body_dry_run = None, body_request_id = Some ''r7'', body_extra = []\<rparr>"
      _ "Some ''secret''" None demo_state "critical_bucket demo_state" "[]"]
    execute_always_awaits [of "demo_world\<lparr>main_extended := Server (\<lambda>n args. Inl ''boom'')\<rparr>"
      "\<lparr>body_tool_name = ''echo'', body_arguments = Some [(''text'', JStr ''hi'')],
         body_dry_run = None, body_request_id = Some ''r7'', body_extra = []\<rparr>"
      _ "Some ''secret''" None demo_state "critical_bucket demo_state" "[]"]
    execute_always_awaits [of "demo_world\<lparr>main_extended := ServerWithoutCallTool\<rparr>"
      "\<lparr>body_tool_name = ''echo'', body_arguments = Some [(''text'', JStr ''hi'')],
         body_dry_run = None, body_request_id = Some ''r7'', body_extra = []\<rparr>"
      _ "Some ''secret''" None demo_state "critical_bucket demo_state" "[]"]
    elapsed_1001_ms
  by (simp add: demo_gate request_rid_def ExecuteRequest_of_body_def render_def payload_of_def)

text \<open>
  C7 as stated fails: a body with \<^verbatim>\<open>background\<close> true is answered with the provider's
  result, after the call, and not with an acknowledgment.
\<close>

theorem background_ignored_counterexample:
  "execute_body demo_world
        \<lparr>body_tool_name = ''echo'', body_arguments = Some [(''text'', JStr ''hi'')],
         body_dry_run = None, body_request_id = Some ''r8'',
         body_extra = [(''background'', JBool True)]\<rparr>
        (Some ''secret'') None demo_state =
       (JSONResponse 200
          \<lparr>success = True, resp_request_id = ''r8'', resp_tool_name = ''echo'',
           result = Some (Payload (JStr ''hi'')), error = None,
           execution_time_ms = PyFloat 2000, governance_level = JStr ''LOW''\<rparr>,
        demo_state\<lparr>tool_calls := [(''echo'', [(''text'', JStr ''hi'')])]\<rparr>)"
  by (simp add: demo_eval execute_body_def ExecuteRequest_of_body_def demo_elapsed_ms)


subsection \<open>The registry builder\<close>

lemma registry_entry_approval:
  "approval_required (registry_entry t) \<longleftrightarrow> rate_limit_level (registry_entry t) = JStr ''CRITICAL''"
  by (auto simp add: registry_entry_def governance_or_default_def dict_get_def Let_def
      split: option.splits)

lemma registry_entry_level:
  "rate_limit_level (registry_entry t) =
     (case governance t of
        None \<Rightarrow> JStr ''MEDIUM''
      | Some gov \<Rightarrow> (case map_of gov ''level'' of None \<Rightarrow> JStr ''MEDIUM'' | Some v \<Rightarrow> v))"
  by (auto simp add: registry_entry_def governance_or_default_def dict_get_def Let_def
      split: option.splits)

lemma registry_loop_entry:
  "registry_loop ts reg n = Some e \<Longrightarrow>
   reg n = Some e \<or> (\<exists>t\<in>set ts. d_name t = n \<and> e = registry_entry t)"
  by (induction ts arbitrary: reg) (fastforce split: if_splits)+

lemma registry_loop_dom:
  "dom (registry_loop ts reg) = dom reg \<union> d_name ` set ts"
  by (induction ts arbitrary: reg) auto

text \<open>
  C9 (as amended). Every entry of the built registry comes from a descriptor of that name
  and requires approval exactly when its level is CRITICAL. The level is MEDIUM when the
  classification is missing (\<^verbatim>\<open>None\<close>, empty, or without a \<^verbatim>\<open>level\<close>); a level that is
  present is stored as it is, whatever it is, and only the string CRITICAL sets the
  approval flag. Every descriptor's name is registered.
\<close>

theorem registry_tier_from_classification:
  "(build_registry main_tools n = Some e \<longrightarrow>
      (approval_required e \<longleftrightarrow> rate_limit_level e = JStr ''CRITICAL'')
      \<and> (\<exists>t\<in>set (load_tools_from_main main_tools). d_name t = n \<and> e = registry_entry t))
   \<and> rate_limit_level (registry_entry t) =
       (case governance t of
          None \<Rightarrow> JStr ''MEDIUM''
        | Some gov \<Rightarrow> (case map_of gov ''level'' of None \<Rightarrow> JStr ''MEDIUM'' | Some v \<Rightarrow> v))
   \<and> (approval_required (registry_entry t) \<longleftrightarrow>
        (case governance t of
           None \<Rightarrow> False
         | Some gov \<Rightarrow> map_of gov ''level'' = Some (JStr ''CRITICAL'')))
   \<and> (t \<in> set (load_tools_from_main main_tools) \<longrightarrow>
        build_registry main_tools (d_name t) \<noteq> None)"
proof -
  have entry: "(approval_required e \<longleftrightarrow> rate_limit_level e = JStr ''CRITICAL'')
      \<and> (\<exists>t\<in>set (load_tools_from_main main_tools). d_name t = n \<and> e = registry_entry t)"
    if "build_registry main_tools n = Some e"
  proof -
    from that have "registry_loop (load_tools_from_main main_tools) Map.empty n = Some e"
      by (simp add: build_registry_def)
    then obtain d where d: "d \<in> set (load_tools_from_main main_tools)"
        "d_name d = n" "e = registry_entry d"
      using registry_loop_entry by fastforce
    then show ?thesis using registry_entry_approval [of d] by auto
  qed
  have flag: "approval_required (registry_entry t) \<longleftrightarrow>
        (case governance t of
           None \<Rightarrow> False
         | Some gov \<Rightarrow> map_of gov ''level'' = Some (JStr ''CRITICAL''))"
    using registry_entry_approval [of t] registry_entry_level [of t]
    by (auto split: option.splits)
  have present: "build_registry main_tools (d_name t) \<noteq> None"
    if "t \<in> set (load_tools_from_main main_tools)"
  proof -
    have "d_name t \<in> dom (build_registry main_tools)"
      using that by (simp add: build_registry_def registry_loop_dom)
    then show ?thesis by auto
  qed
  from entry registry_entry_level [of t] flag present show ?thesis by blast
qed

text \<open>The CRITICAL tool of the deployment, and a tool without a level.\<close>

theorem registry_tier_from_classification_witness:
  "build_registry (Some demo_tools) ''drop-all-data'' =
     Some \<lparr>name = ''drop-all-data'', description = JStr ''Drop everything'',
            parameters = [], rate_limit_level = JStr ''CRITICAL'', approval_required = True\<rparr>
   \<and> rate_limit_level (registry_entry unclassified_tool) = JStr ''MEDIUM''
   \<and> \<not> approval_required (registry_entry unclassified_tool)
   \<and> unclassified_tool \<in> set (load_tools_from_main (Some [unclassified_tool]))
   \<and> build_registry (Some [unclassified_tool]) ''mystery'' \<noteq> None"
  using registry_tier_from_classification
      [of "Some demo_tools" "''drop-all-data''" _ unclassified_tool]
    registry_tier_from_classification
      [of "Some [unclassified_tool]" "''mystery''" _ unclassified_tool]
    demo_registry_drop
  by (simp add: demo_world_def unclassified_tool_def load_tools_from_main_def)

text \<open>
  C9 as stated fails: a level that is no tier, and a null level, are registered as they
  are and not as MEDIUM, with no approval flag.
\<close>

theorem unknown_level_kept_counterexample:
  "build_registry (Some [unknown_level_tool, null_level_tool]) ''experimental'' =
     Some \<lparr>name = ''experimental'', description = JStr [], parameters = [],
            rate_limit_level = JStr ''UNKNOWN'', approval_required = False\<rparr>
   \<and> build_registry (Some [unknown_level_tool, null_level_tool]) ''unrated'' =
     Some \<lparr>name = ''unrated'', description = JStr [], parameters = [],
            rate_limit_level = JNull, approval_required = False\<rparr>"
  by (simp add: build_registry_def load_tools_from_main_def unknown_level_tool_def
      null_level_tool_def registry_entry_def governance_or_default_def dict_get_def)


subsection \<open>The approval marker\<close>

text \<open>
  C10. The marker is the value under \<^verbatim>\<open>_approved\<close> in the request's arguments. Absent
  or falsy, the call is pending: \<^verbatim>\<open>write_local_memory\<close> is applied to a record that holds
  the arguments as they came, marker included, and its answer is the \<^verbatim>\<open>memory_id\<close> of
  the response. Truthy, the call goes on: \<^verbatim>\<open>call_tool\<close> is applied to the tool name and
  the same arguments, marker included, and the response is built from what it returns.
\<close>

theorem approved_marker_lives_in_arguments:
  assumes reg: "REGISTRY w (tool_name req) = Some t"
      and auth: "validate_key (cfg w) k (header_bool ro)"
      and gate: "critical_gate w t s = Inr (True, b)"
      and appr: "approval_required t"
  shows "((case map_of (arguments req) ''_approved'' of None \<Rightarrow> True | Some v \<Rightarrow> \<not> py_bool v) \<longrightarrow>
            execute w req k ro s =
              (case memory w of
                 MemoryUnavailable \<Rightarrow>
                   (JSONResponse 200 (pending_content (request_rid w req) req t JNull),
                    s\<lparr>critical_bucket := b\<rparr>)
               | MemoryHelpers write_local_memory \<Rightarrow>
                   (JSONResponse 200
                      (pending_content (request_rid w req) req t
                         (case write_local_memory
                                 \<lparr>mem_type = ''tool_request'', mem_tool_name = tool_name req,
                                  mem_arguments = arguments req, requires_approval = True,
                                  approval_status = ''pending'',
                                  requested_by =
                                    (case k of None \<Rightarrow> ''anonymous''
                                     | Some key \<Rightarrow> if key = [] then ''anonymous'' else key)\<rparr> of
                            Inl e \<Rightarrow> JNull
                          | Inr i \<Rightarrow> i)),
                    s\<lparr>critical_bucket := b,
                      memory_writes := memory_writes s @
                        [\<lparr>mem_type = ''tool_request'', mem_tool_name = tool_name req,
                          mem_arguments = arguments req, requires_approval = True,
                          approval_status = ''pending'',
                          requested_by =
                            (case k of None \<Rightarrow> ''anonymous''
                             | Some key \<Rightarrow> if key = [] then ''anonymous'' else key)\<rparr>]\<rparr>)))
       \<and> ((case map_of (arguments req) ''_approved'' of None \<Rightarrow> False | Some v \<Rightarrow> py_bool v)
            \<and> \<not> dry_run req \<and> main_extended w = Server call_tool \<longrightarrow>
            execute w req k ro s =
              (case call_tool (tool_name req) (arguments req) of
                 Inl msg \<Rightarrow> JSONResponse 500 (error_content (request_rid w req) req t msg)
               | Inr r \<Rightarrow>
                   (case render (payload_of (json_loads w) r) of
                      None \<Rightarrow>
                        JSONResponse 500
                          (error_content (request_rid w req) req t (encoder_error w))
                    | Some p \<Rightarrow>
                        JSONResponse 200 (success_content w (request_rid w req) req t p)),
               s\<lparr>critical_bucket := b,
                 tool_calls := tool_calls s @ [(tool_name req, arguments req)]\<rparr>))"
proof -
  have first: "execute w req k ro s =
              (case memory w of
                 MemoryUnavailable \<Rightarrow>
                   (JSONResponse 200 (pending_content (request_rid w req) req t JNull),
                    s\<lparr>critical_bucket := b\<rparr>)
               | MemoryHelpers write_local_memory \<Rightarrow>
                   (JSONResponse 200
                      (pending_content (request_rid w req) req t
                         (case write_local_memory
                                 \<lparr>mem_type = ''tool_request'', mem_tool_name = tool_name req,
                                  mem_arguments = arguments req, requires_approval = True,
                                  approval_status = ''pending'',
                                  requested_by =
                                    (case k of None \<Rightarrow> ''anonymous''
                                     | Some key \<Rightarrow> if key = [] then ''anonymous'' else key)\<rparr> of
                            Inl e \<Rightarrow> JNull
                          | Inr i \<Rightarrow> i)),
                    s\<lparr>critical_bucket := b,
                      memory_writes := memory_writes s @
                        [\<lparr>mem_type = ''tool_request'', mem_tool_name = tool_name req,
                          mem_arguments = arguments req, requires_approval = True,
                          approval_status = ''pending'',
                          requested_by =
                            (case k of None \<Rightarrow> ''anonymous''
                             | Some key \<Rightarrow> if key = [] then ''anonymous'' else key)\<rparr>]\<rparr>))"
    if "case map_of (arguments req) ''_approved'' of None \<Rightarrow> True | Some v \<Rightarrow> \<not> py_bool v"
  proof -
    from that have un: "\<not> already_approved req"
      by (auto simp add: already_approved_def dict_get_def split: option.splits)
    show ?thesis
      using execute_pending [OF reg auth gate appr un]
      by (simp add: approval_record_def split: memory_helpers.splits)
  qed
  have second: "execute w req k ro s =
              (case call_tool (tool_name req) (arguments req) of
                 Inl msg \<Rightarrow> JSONResponse 500 (error_content (request_rid w req) req t msg)
               | Inr r \<Rightarrow>
                   (case render (payload_of (json_loads w) r) of
                      None \<Rightarrow>
                        JSONResponse 500
                          (error_content (request_rid w req) req t (encoder_error w))
                    | Some p \<Rightarrow>
                        JSONResponse 200 (success_content w (request_rid w req) req t p)),
               s\<lparr>critical_bucket := b,
                 tool_calls := tool_calls s @ [(tool_name req, arguments req)]\<rparr>)"
    if "case map_of (arguments req) ''_approved'' of None \<Rightarrow> False | Some v \<Rightarrow> py_bool v"
       "\<not> dry_run req" "main_extended w = Server call_tool"
  proof -
    from that(1) have "already_approved req"
      by (auto simp add: already_approved_def dict_get_def split: option.splits)
    then have np: "\<not> (approval_required t \<and> \<not> already_approved req)" by simp
    show ?thesis
      using execute_dispatch [OF reg auth gate np that(2) that(3)] .
  qed
  from first second show ?thesis by blast
qed

text \<open>The same call with the marker false and then true; store and provider hand the arguments back.\<close>

theorem approved_marker_lives_in_arguments_witness:
  "REGISTRY reflecting_world ''drop-all-data'' \<noteq> None
   \<and> execute reflecting_world
        \<lparr>tool_name = ''drop-all-data'',
         arguments = [(''table'', JStr ''users''), (''_approved'', JBool False)],
         dry_run = False, request_id = Some ''r10''\<rparr>
        (Some ''secret'') None demo_state =
       (JSONResponse 200
          \<lparr>success = False, resp_request_id = ''r10'', resp_tool_name = ''drop-all-data'',
           result = Some (ApprovalResult True
                      (JObj [(''table'', JStr ''users''), (''_approved'', JBool False)])),
           error = Some ''approval_required'', execution_time_ms = PyInt 0,
           governance_level = JStr ''CRITICAL''\<rparr>,
        demo_state
          \<lparr>critical_bucket := (critical_bucket_init 0)\<lparr>tokens := PyInt 4\<rparr>,
           memory_writes :=
             [\<lparr>mem_type = ''tool_request'', mem_tool_name = ''drop-all-data'',
               mem_arguments = [(''table'', JStr ''users''), (''_approved'', JBool False)],
               requires_approval = True, approval_status = ''pending'',
               requested_by = ''secret''\<rparr>]\<rparr>)
   \<and> execute reflecting_world
        \<lparr>tool_name = ''drop-all-data'',
         arguments = [(''table'', JStr ''users''), (''_approved'', JBool True)],
         dry_run = False, request_id = Some ''r10''\<rparr>
        (Some ''secret'') None demo_state =
       (JSONResponse 200
          \<lparr>success = True, resp_request_id = ''r10'', resp_tool_name = ''drop-all-data'',
           result = Some (Payload
                      (JObj [(''table'', JStr ''users''), (''_approved'', JBool True)])),
           error = None, execution_time_ms = PyFloat 2000,
           governance_level = JStr ''CRITICAL''\<rparr>,
        demo_state
          \<lparr>critical_bucket := (critical_bucket_init 0)\<lparr>tokens := PyInt 4\<rparr>,
           tool_calls :=
             [(''drop-all-data'', [(''table'', JStr ''users''), (''_approved'', JBool True)])]\<rparr>)"
proof -
  have fields: "REGISTRY reflecting_world = REGISTRY demo_world"
      "cfg reflecting_world = cfg demo_world"
      "time_now reflecting_world = time_now demo_world"
      "json_loads reflecting_world = json_loads demo_world"
      "memory reflecting_world = MemoryHelpers (\<lambda>m. Inr (JObj (mem_arguments m)))"
      "main_extended reflecting_world = Server (\<lambda>n args. Inr (ResultValue (JObj args)))"
    by (simp_all add: reflecting_world_def)
  have ms: "elapsed_ms reflecting_world = 2000"
    using demo_elapsed_ms by (simp add: elapsed_ms_def reflecting_world_def)
  show ?thesis
    using approved_marker_lives_in_arguments [of reflecting_world
        "\<lparr>tool_name = ''drop-all-data'',
           arguments = [(''table'', JStr ''users''), (''_approved'', JBool False)],
           dry_run = False, request_id = Some ''r10''\<rparr>"
        _ "Some ''secret''" None demo_state "(critical_bucket_init 0)\<lparr>tokens := PyInt 4\<rparr>"]
      approved_marker_lives_in_arguments [of reflecting_world
        "\<lparr>tool_name = ''drop-all-data'',
           arguments = [(''table'', JStr ''users''), (''_approved'', JBool True)],
           dry_run = False, request_id = Some ''r10''\<rparr>"
        _ "Some ''secret''" None demo_state "(critical_bucket_init 0)\<lparr>tokens := PyInt 4\<rparr>"
        "\<lambda>n args. Inr (ResultValue (JObj args))"]
    by (simp add: fields ms demo_gate request_rid_def pending_content_def success_content_def
        render_def payload_of_def)
qed

end
